theory Spec2Isabelle
  imports Main
begin

section \<open>The synchronization daemon of src/index.js\<close>

text \<open>
  The daemon is a single-threaded Node.js program. Its coordination state is the field
  \<open>currentState\<close> of the one \<open>StateManager\<close> object and the module variable
  \<open>batchTimer\<close>. Everything else that decides the order of commits and pulls lives in
  the event loop: the timeouts that are armed, and the asynchronous invocations of
  \<open>batchedCommit\<close> and \<open>pullUpdates\<close> that have started and not yet settled.
  The record below holds both parts, so that each callback of the program is a function
  from worlds to worlds. The script modelled is the one that declares the methods of
  \<open>StateManager\<close>; the checks of \<open>verifyRepo\<close> and the statistics report run before
  the state manager is initialised and are not part of the model.
\<close>

subsection \<open>Configuration\<close>

definition BATCH_INTERVAL_MS :: nat where
  "BATCH_INTERVAL_MS = 1 * 60 * 1000"

definition PULL_INTERVAL_MS :: nat where
  "PULL_INTERVAL_MS = 1 * 60 * 1000"

subsection \<open>Console and world\<close>

datatype level = INFO | WARN | ERROR

text \<open>
  A console line is its severity, the value of \<open>currentState\<close> when the line was printed
  (the helpers print it as a tag) and the message. The time stamp of the line is left out.
\<close>

type_synonym log_line = "level \<times> string \<times> string"

record world =
  currentState :: string
  batchTimer :: "nat option"
  console :: "log_line list"
  timeouts :: "(nat \<times> nat) list"
  nextHandle :: nat
  clock :: nat
  commitsRunning :: nat
  pullsRunning :: nat

text \<open>
  \<open>timeouts\<close> are the armed timeouts of the event loop as pairs of handle and due time
  (milliseconds), \<open>nextHandle\<close> the handle the next \<open>setTimeout\<close> returns, \<open>clock\<close> the
  time of the callback that is running. \<open>commitsRunning\<close> and \<open>pullsRunning\<close> count the
  invocations of \<open>batchedCommit\<close> and \<open>pullUpdates\<close> that are suspended at an
  \<open>await\<close>, that is, whose git commands are in progress on the working tree.
\<close>

definition logInfo :: "string \<Rightarrow> world \<Rightarrow> world" where
  "logInfo msg w = w\<lparr>console := console w @ [(INFO, currentState w, msg)]\<rparr>"

definition logWarn :: "string \<Rightarrow> world \<Rightarrow> world" where
  "logWarn msg w = w\<lparr>console := console w @ [(WARN, currentState w, msg)]\<rparr>"

definition logError :: "string \<Rightarrow> world \<Rightarrow> world" where
  "logError msg w = w\<lparr>console := console w @ [(ERROR, currentState w, msg)]\<rparr>"

subsection \<open>Timers of the event loop\<close>

definition setTimeout :: "nat \<Rightarrow> world \<Rightarrow> nat \<times> world" where
  "setTimeout delay w =
     (nextHandle w,
      w\<lparr>timeouts := timeouts w @ [(nextHandle w, clock w + delay)],
        nextHandle := Suc (nextHandle w)\<rparr>)"

definition clearTimeout :: "nat \<Rightarrow> world \<Rightarrow> world" where
  "clearTimeout h w = w\<lparr>timeouts := filter (\<lambda>(i, due). i \<noteq> h) (timeouts w)\<rparr>"

subsection \<open>class StateManager\<close>

text \<open>The constructor, with the module variables as the script initialises them.\<close>

definition StateManager_new :: world where
  "StateManager_new =
     \<lparr>currentState = ''initializing'', batchTimer = None, console = [], timeouts = [],
      nextHandle = 0, clock = 0, commitsRunning = 0, pullsRunning = 0\<rparr>"

definition setState :: "string \<Rightarrow> world \<Rightarrow> world" where
  "setState newState w =
     (if currentState w \<noteq> newState
      then (logInfo (''State changed: '' @ currentState w @ '' -> '' @ newState) w)
             \<lparr>currentState := newState\<rparr>
      else w)"

text \<open>
  \<open>init\<close> also starts a ten-second interval that prints the state when it is idle; that
  callback reads the state and writes nothing but the console, and is not modelled.
\<close>

definition StateManager_init :: "world \<Rightarrow> world" where
  "StateManager_init w = setState ''idle'' (logInfo ''State manager initialized.'' w)"

definition processDone :: "world \<Rightarrow> world" where
  "processDone w =
     (if batchTimer w \<noteq> None then setState ''pending'' w else setState ''idle'' w)"

text \<open>
  \<open>pullUpdates()\<close> runs synchronously up to its first \<open>await\<close>: it prints a line and
  starts the pull of the superproject.
\<close>

definition pullUpdates_begin :: "world \<Rightarrow> world" where
  "pullUpdates_begin w =
     (logInfo ''Attempting to pull latest changes...'' w)\<lparr>pullsRunning := Suc (pullsRunning w)\<rparr>"

definition maybePull :: "world \<Rightarrow> world" where
  "maybePull w =
     (if currentState w = ''idle''
      then pullUpdates_begin (setState ''pulling'' (logInfo ''Checking for remote changes...'' w))
      else logInfo (''Skipping pull, current state:'' @ currentState w) w)"

text \<open>The two handlers that \<open>maybePull\<close> attaches to the promise of \<open>pullUpdates\<close>.\<close>

definition maybePull_then :: "world \<Rightarrow> world" where
  "maybePull_then w = setState ''idle'' (logInfo ''Pull completed successfully.'' w)"

definition maybePull_catch :: "string \<Rightarrow> world \<Rightarrow> world" where
  "maybePull_catch message w = setState ''error'' (logError (''Pull failed: '' @ message) w)"

definition onChange :: "string \<Rightarrow> string \<Rightarrow> world \<Rightarrow> world" where
  "onChange event filePath w =
     (let w1 = setState ''pending'' w;
          message = ''File '' @ filePath @ '' changed: '' @ event;
          (w2, message) =
            (case batchTimer w1 of
               Some h \<Rightarrow> (clearTimeout h w1, message @ '' (previous batch timer cleared)'')
             | None \<Rightarrow> (w1, message));
          (h', w3) = setTimeout BATCH_INTERVAL_MS w2;
          w4 = w3\<lparr>batchTimer := Some h'\<rparr>;
          message = message @ '' (next commit in 1 minutes)''
      in logInfo message w4)"

subsection \<open>Results of the git commands and of the file system\<close>

text \<open>
  The git commands of \<open>simple-git\<close> and \<open>fs.existsSync\<close> are the daemon's only
  inputs besides its events. Each command either returns or rejects with a message:
  \<open>Inl\<close> is the rejection. A cycle is run against a record of the results its commands
  will have, and yields the commands it issued and the lines it printed, in order.
\<close>

datatype repo = Superproject | Sub string

datatype git_op =
    Raw "string list"
  | Status
  | BranchLocal
  | Add string
  | Commit string
  | Checkout string
  | Push string string
  | Pull string string

datatype cycle_event = Git repo git_op | Log level string

text \<open>How an asynchronous function ended: at its last statement, at a \<open>return\<close>, or by an
  exception that nothing caught (the promise rejects).\<close>

datatype completion = Completed | ReturnedEarly | Threw string

record sub_git =
  pathExists :: bool
  statusFiles :: "string + nat"
  branchCurrent :: "string + string"
  addResult :: "string + unit"
  commitResult :: "string + unit"
  checkoutResult :: "string + unit"
  pushResult :: "string + unit"

text \<open>
  \<open>submodStatus\<close> is the output of \<open>git submodule status --recursive\<close> after the
  script has split it into folder names, each with the results of the git handle opened on
  that folder. \<open>mainStatus\<close> is \<open>files.length\<close> and, when the status has a
  \<open>submodules\<close> field, its length.
\<close>

record commit_env =
  commitDate :: string
  submodStatus :: "string + (string \<times> sub_git) list"
  mainStatus :: "string + nat \<times> nat option"
  mainAdd :: "string + unit"
  mainCommit :: "string + unit"
  mainBranch :: "string + string"
  mainPush :: "string + unit"

subsection \<open>Commit messages\<close>

fun decimal :: "nat \<Rightarrow> string" where
  "decimal n =
     (if n < 10 then [char_of (48 + n)]
      else decimal (n div 10) @ [char_of (48 + n mod 10)])"

declare decimal.simps [simp del]

text \<open>\<open>JSON.stringify\<close> of the base commit object, without its closing brace.\<close>

definition baseCommitObj :: "string \<Rightarrow> string" where
  \<open>baseCommitObj date =
     ''{"author":"pve3 Obsidian-Phone","date":"'' @ date @
     ''","lines":{"added":0,"removed":0}''\<close>

definition subCommitMsg :: "string \<Rightarrow> nat \<Rightarrow> string" where
  \<open>subCommitMsg date numFiles =
     baseCommitObj date @ '',"numFiles":'' @ decimal numFiles @ ''}''\<close>

definition superCommitMsg :: "string \<Rightarrow> nat \<Rightarrow> nat option \<Rightarrow> string" where
  \<open>superCommitMsg date numFiles subs =
     baseCommitObj date @ '',"numFiles":'' @ decimal numFiles @
     '',"numSubmodules":'' @ decimal (case subs of None \<Rightarrow> 0 | Some k \<Rightarrow> k) @ ''}''\<close>

fun join :: "string \<Rightarrow> string list \<Rightarrow> string" where
  "join sep [] = []"
| "join sep [x] = x"
| "join sep (x # y # ys) = x @ sep @ join sep (y # ys)"

subsection \<open>batchedCommit: the submodules\<close>

text \<open>The end of one pass of the loop: the push to \<open>main\<close>, whose failure is caught.\<close>

definition submodulePush :: "string \<Rightarrow> sub_git \<Rightarrow> cycle_event list" where
  "submodulePush folderName g =
     (case pushResult g of
        Inr _ \<Rightarrow>
          [Git (Sub folderName) (Push ''origin'' ''main''),
           Log INFO (''Pushed submodule '' @ folderName @ '' to main'')]
      | Inl e \<Rightarrow>
          [Git (Sub folderName) (Push ''origin'' ''main''),
           Log WARN (''Failed to push submodule '' @ folderName @ '': '' @ e)])"

text \<open>
  One pass of the loop over \<open>folderNames\<close>. The second component is the message of an
  exception that leaves the loop: \<open>status\<close>, \<open>branchLocal\<close> and \<open>add\<close> are
  awaited outside any \<open>try\<close>. \<open>None\<close> means that the loop goes on, by
  \<open>continue\<close> or by reaching the end of its body.
\<close>

definition submoduleIteration :: "string \<Rightarrow> string \<Rightarrow> sub_git \<Rightarrow> cycle_event list \<times> string option" where
  \<open>submoduleIteration date folderName g =
     (if \<not> pathExists g
      then ([Log WARN (''Skipping missing submodule path: '' @ folderName)], None)
      else case statusFiles g of
        Inl e \<Rightarrow> ([Git (Sub folderName) Status], Some e)
      | Inr numFiles \<Rightarrow>
       (case branchCurrent g of
          Inl e \<Rightarrow> ([Git (Sub folderName) Status, Git (Sub folderName) BranchLocal], Some e)
        | Inr currentBranch \<Rightarrow>
         (let tr = [Git (Sub folderName) Status, Git (Sub folderName) BranchLocal] in
          if numFiles > 0 then
            (case addResult g of
               Inl e \<Rightarrow> (tr @ [Git (Sub folderName) (Add ''.'')], Some e)
             | Inr _ \<Rightarrow>
              (let commitMsg = subCommitMsg date numFiles;
                   tr = tr @ [Git (Sub folderName) (Add ''.''), Git (Sub folderName) (Commit commitMsg)]
               in case commitResult g of
                 Inl e \<Rightarrow>
                   (tr @ [Log WARN (''Failed to commit submodule '' @ folderName @ '': '' @ e)], None)
               | Inr _ \<Rightarrow>
                  (let tr = tr @ [Log INFO (''Committed submodule '' @ folderName @
                                    '', with message: "'' @ commitMsg @ ''"'')]
                   in if currentBranch \<noteq> ''main'' then
                        (case checkoutResult g of
                           Inl e \<Rightarrow>
                             (tr @ [Git (Sub folderName) (Checkout ''main''),
                                    Log WARN (''Failed to checkout 'main' in submodule '' @
                                              folderName @ '': '' @ e)], None)
                         | Inr _ \<Rightarrow>
                             (tr @ [Git (Sub folderName) (Checkout ''main''),
                                    Log INFO (''Checked out 'main' in submodule '' @ folderName)]
                                 @ submodulePush folderName g, None))
                      else (tr @ submodulePush folderName g, None))))
          else (tr @ [Log INFO (''No changes to commit in submodule '' @ folderName)], None))))\<close>

fun submoduleLoop :: "string \<Rightarrow> (string \<times> sub_git) list \<Rightarrow> cycle_event list \<times> string option" where
  "submoduleLoop date [] = ([], None)"
| "submoduleLoop date ((folderName, g) # rest) =
     (case submoduleIteration date folderName g of
        (tr, Some e) \<Rightarrow> (tr, Some e)
      | (tr, None) \<Rightarrow> (case submoduleLoop date rest of (tr', r) \<Rightarrow> (tr @ tr', r)))"

subsection \<open>batchedCommit: the superproject\<close>

text \<open>
  The second half of \<open>batchedCommit\<close>. A failed commit of the superproject is caught and
  followed by \<open>return\<close>; \<open>status\<close>, \<open>add\<close> and \<open>branchLocal\<close> are awaited
  outside any \<open>try\<close>. An empty branch name is the detached head.
\<close>

definition superprojectCommit :: "commit_env \<Rightarrow> cycle_event list \<times> completion" where
  \<open>superprojectCommit env =
     (case mainStatus env of
        Inl e \<Rightarrow> ([Git Superproject Status], Threw e)
      | Inr (numFiles, subs) \<Rightarrow>
         (let tr = [Git Superproject Status];
              hasChanges = (numFiles > 0 \<or> (case subs of None \<Rightarrow> False | Some k \<Rightarrow> k > 0))
          in if hasChanges then
            (case mainAdd env of
               Inl e \<Rightarrow> (tr @ [Git Superproject (Add ''.'')], Threw e)
             | Inr _ \<Rightarrow>
              (let commitMsg = superCommitMsg (commitDate env) numFiles subs;
                   tr = tr @ [Git Superproject (Add ''.''), Git Superproject (Commit commitMsg)]
               in case mainCommit env of
                 Inl e \<Rightarrow> (tr @ [Log WARN (''Failed to commit superproject: '' @ e)], ReturnedEarly)
               | Inr _ \<Rightarrow>
                  (let tr = tr @ [Log INFO (''Superproject committed, with message: "'' @
                                            commitMsg @ ''"''),
                                  Git Superproject BranchLocal]
                   in case mainBranch env of
                     Inl e \<Rightarrow> (tr, Threw e)
                   | Inr branch \<Rightarrow>
                      (if branch \<noteq> [] then
                         (case mainPush env of
                            Inr _ \<Rightarrow>
                              (tr @ [Git Superproject (Push ''origin'' branch),
                                     Log INFO (''Superproject pushed to '' @ branch)], Completed)
                          | Inl e \<Rightarrow>
                              (tr @ [Git Superproject (Push ''origin'' branch),
                                     Log WARN (''Failed to push superproject: '' @ e)], Completed))
                       else
                         (tr @ [Log WARN ''Superproject is in a detached HEAD; skipping push.''],
                          Completed)))))
          else (tr @ [Log INFO ''No superproject or submodule pointer changes to commit''],
                Completed)))\<close>

text \<open>
  \<open>batchedCommit\<close> between its first \<open>await\<close> and its last statement. This part
  reads \<open>currentState\<close> only to tag the lines it prints and writes neither it nor
  \<open>batchTimer\<close>.
\<close>

definition batchedCommit_body :: "commit_env \<Rightarrow> cycle_event list \<times> completion" where
  "batchedCommit_body env =
     (let raw = Git Superproject (Raw [''submodule'', ''status'', ''--recursive'']) in
      case submodStatus env of
        Inl e \<Rightarrow> ([raw], Threw e)
      | Inr folders \<Rightarrow>
         (let tr = [raw, Log INFO (''Submodule folders: '' @ join '', '' (map fst folders))] in
          case submoduleLoop (commitDate env) folders of
            (tr1, Some e) \<Rightarrow> (tr @ tr1, Threw e)
          | (tr1, None) \<Rightarrow>
              (case superprojectCommit env of (tr2, c) \<Rightarrow> (tr @ tr1 @ tr2, c))))"

subsection \<open>pullUpdates\<close>

record sub_pull =
  pullBranch :: "string + string"
  pullResult :: "string + unit"

text \<open>\<open>submodules\<close> is the list that \<open>verifyRepo\<close> filled from \<open>.gitmodules\<close>, each
  path with the results of its git handle.\<close>

record pull_env =
  superPull :: "string + unit"
  submodules :: "(string \<times> sub_pull) list"

definition pullSuperproject :: "pull_env \<Rightarrow> cycle_event list" where
  "pullSuperproject env =
     (case superPull env of
        Inr _ \<Rightarrow>
          [Git Superproject (Pull ''origin'' ''main''),
           Log INFO ''Pulled latest changes in superproject'']
      | Inl e \<Rightarrow>
          [Git Superproject (Pull ''origin'' ''main''),
           Log WARN (''Failed to pull superproject: '' @ e)])"

definition pullSubmodule :: "string \<Rightarrow> sub_pull \<Rightarrow> cycle_event list" where
  "pullSubmodule path g =
     (case pullBranch g of
        Inl e \<Rightarrow>
          [Git (Sub path) BranchLocal, Log WARN (''Failed to pull submodule '' @ path @ '': '' @ e)]
      | Inr currentBranch \<Rightarrow>
         (if currentBranch \<noteq> ''main''
          then [Git (Sub path) BranchLocal,
                Log WARN (''Skipping pull in '' @ path @ '' (not on main)'')]
          else case pullResult g of
            Inr _ \<Rightarrow>
              [Git (Sub path) BranchLocal, Git (Sub path) (Pull ''origin'' ''main''),
               Log INFO (''Pulled latest changes in submodule '' @ path)]
          | Inl e \<Rightarrow>
              [Git (Sub path) BranchLocal, Git (Sub path) (Pull ''origin'' ''main''),
               Log WARN (''Failed to pull submodule '' @ path @ '': '' @ e)]))"

text \<open>
  \<open>pullUpdates\<close> between its start and its call of \<open>processDone\<close>. Every \<open>await\<close>
  of it is inside a \<open>try\<close> whose \<open>catch\<close> prints a warning, so it has one way to end.
\<close>

definition pullUpdates_body :: "pull_env \<Rightarrow> cycle_event list \<times> completion" where
  "pullUpdates_body env =
     (pullSuperproject env @ concat (map (\<lambda>(path, g). pullSubmodule path g) (submodules env)),
      Completed)"

subsection \<open>The asynchronous functions on the world\<close>

text \<open>\<open>batchedCommit\<close> runs synchronously up to its first \<open>await\<close>.\<close>

definition batchedCommit_begin :: "world \<Rightarrow> world" where
  "batchedCommit_begin w =
     (setState ''committing'' (logInfo ''Performing batched commit...'' w))
       \<lparr>commitsRunning := Suc (commitsRunning w)\<rparr>"

text \<open>
  The rest of \<open>batchedCommit\<close>, run when its last git command has returned: only when the
  body reaches its last statements it clears \<open>batchTimer\<close> and calls \<open>processDone\<close>.
  The promise of \<open>batchedCommit\<close> has no handler; after an exception the daemon is taken
  to go on with its variables as they are, as Node does when an unhandled rejection only
  prints a warning.
\<close>

definition batchedCommit_settle :: "commit_env \<Rightarrow> world \<Rightarrow> world" where
  "batchedCommit_settle env w =
     (let w' = w\<lparr>commitsRunning := commitsRunning w - 1\<rparr> in
      case snd (batchedCommit_body env) of
        Completed \<Rightarrow> processDone (w'\<lparr>batchTimer := None\<rparr>)
      | ReturnedEarly \<Rightarrow> w'
      | Threw e \<Rightarrow> w')"

text \<open>
  The rest of \<open>pullUpdates\<close> and the handler of \<open>maybePull\<close> that follows it. The handler
  runs as a microtask of the same turn of the event loop, before any other event.
\<close>

definition pullUpdates_settle :: "pull_env \<Rightarrow> world \<Rightarrow> world" where
  "pullUpdates_settle env w =
     (let w' = w\<lparr>pullsRunning := pullsRunning w - 1\<rparr> in
      case snd (pullUpdates_body env) of
        Completed \<Rightarrow> maybePull_then (processDone w')
      | ReturnedEarly \<Rightarrow> maybePull_then w'
      | Threw e \<Rightarrow> maybePull_catch e w')"

subsection \<open>The event loop\<close>

datatype event =
    Change string string
  | TimerFires nat
  | PullTick
  | CommitSettles commit_env
  | PullSettles pull_env

text \<open>
  One turn of the event loop at time \<open>t\<close>. A change event of the watcher and a tick of the
  pull interval can come at any time; a timeout fires when it is armed and due, and is
  then no longer armed; a cycle settles only when one is running. \<open>None\<close> says that the
  event cannot happen in this world.
\<close>

definition step :: "nat \<Rightarrow> event \<Rightarrow> world \<Rightarrow> world option" where
  "step t ev w0 =
     (if t < clock w0 then None
      else let w = w0\<lparr>clock := t\<rparr> in
        case ev of
          Change e filePath \<Rightarrow> Some (onChange e filePath w)
        | TimerFires h \<Rightarrow>
            (case map_of (timeouts w) h of
               None \<Rightarrow> None
             | Some due \<Rightarrow>
                 if due \<le> t then Some (batchedCommit_begin (clearTimeout h w)) else None)
        | PullTick \<Rightarrow> Some (maybePull w)
        | CommitSettles env \<Rightarrow>
            if 0 < commitsRunning w then Some (batchedCommit_settle env w) else None
        | PullSettles env \<Rightarrow>
            if 0 < pullsRunning w then Some (pullUpdates_settle env w) else None)"

fun run :: "(nat \<times> event) list \<Rightarrow> world \<Rightarrow> world option" where
  "run [] w = Some w"
| "run ((t, ev) # evs) w = (case step t ev w of None \<Rightarrow> None | Some w' \<Rightarrow> run evs w')"

text \<open>The world in which the script starts the watcher and the pull interval.\<close>

definition main_started :: world where
  "main_started = StateManager_init StateManager_new"

subsection \<open>Notions used in the statements\<close>

text \<open>The states that the callbacks assign after \<open>init\<close>.\<close>

definition liveStates :: "string set" where
  "liveStates = {''idle'', ''pending'', ''committing'', ''pulling''}"

subsection \<open>Sample inputs\<close>

definition changedSub :: sub_git where
  "changedSub =
     \<lparr>pathExists = True, statusFiles = Inr 2, branchCurrent = Inr ''main'', addResult = Inr (),
      commitResult = Inr (), checkoutResult = Inr (), pushResult = Inr ()\<rparr>"

definition cleanTree :: commit_env where
  "cleanTree =
     \<lparr>commitDate = ''2025-01-01 00:00:00'', submodStatus = Inr [], mainStatus = Inr (1, None),
      mainAdd = Inr (), mainCommit = Inr (), mainBranch = Inr ''main'', mainPush = Inr ()\<rparr>"

text \<open>
  Three submodules with local changes: the commit of the first is rejected, and the git
  directory of the second is gone, so that its \<open>status\<close> rejects.
\<close>

definition laterStatusRejects :: commit_env where
  "laterStatusRejects =
     cleanTree\<lparr>submodStatus := Inr
       [(''photos'', changedSub\<lparr>commitResult := Inl ''pre-commit hook failed''\<rparr>),
        (''broken'', changedSub\<lparr>statusFiles := Inl ''fatal: not a git repository''\<rparr>),
        (''drafts'', changedSub)]\<rparr>"

definition remoteUp :: pull_env where
  "remoteUp = \<lparr>superPull = Inr (), submodules = []\<rparr>"

definition remoteDown :: pull_env where
  "remoteDown = \<lparr>superPull = Inl ''Could not resolve host'', submodules = []\<rparr>"

text \<open>The world after a pull was started from idle and its promise rejected.\<close>

definition errorWorld :: world where
  "errorWorld = maybePull_catch ''boom'' ((maybePull main_started)\<lparr>pullsRunning := 0\<rparr>)"

section \<open>Properties of the coordinator\<close>

subsection \<open>What each callback does to \<open>currentState\<close>\<close>

lemmas daemon_defs =
  step_def onChange_def maybePull_def pullUpdates_begin_def maybePull_then_def
  maybePull_catch_def processDone_def setState_def logInfo_def logWarn_def logError_def
  setTimeout_def clearTimeout_def batchedCommit_begin_def batchedCommit_settle_def
  pullUpdates_settle_def main_started_def StateManager_init_def StateManager_new_def
  BATCH_INTERVAL_MS_def Let_def

lemma currentState_logInfo [simp]: "currentState (logInfo m w) = currentState w"
  by (simp add: logInfo_def)

lemma currentState_logError [simp]: "currentState (logError m w) = currentState w"
  by (simp add: logError_def)

lemma currentState_setState [simp]: "currentState (setState s w) = s"
  by (simp add: setState_def logInfo_def)

lemma currentState_processDone:
  "currentState (processDone w) = (if batchTimer w \<noteq> None then ''pending'' else ''idle'')"
  by (simp add: processDone_def)

lemma currentState_onChange [simp]: "currentState (onChange e p w) = ''pending''"
  by (simp add: onChange_def Let_def setTimeout_def clearTimeout_def
      split: option.splits prod.splits)

lemma currentState_maybePull:
  "currentState (maybePull w) = (if currentState w = ''idle'' then ''pulling'' else currentState w)"
  by (simp add: maybePull_def pullUpdates_begin_def)

lemma pullsRunning_maybePull:
  "pullsRunning (maybePull w) =
     (if currentState w = ''idle'' then Suc (pullsRunning w) else pullsRunning w)"
  by (simp add: maybePull_def pullUpdates_begin_def setState_def logInfo_def)

lemma currentState_batchedCommit_begin [simp]:
  "currentState (batchedCommit_begin w) = ''committing''"
  by (simp add: batchedCommit_begin_def)

lemma currentState_batchedCommit_settle:
  "currentState (batchedCommit_settle env w) \<in> {currentState w, ''idle''}"
  by (simp add: batchedCommit_settle_def Let_def currentState_processDone split: completion.splits)

lemma pullUpdates_body_completes: "snd (pullUpdates_body env) = Completed"
  by (simp add: pullUpdates_body_def)

lemma currentState_pullUpdates_settle [simp]:
  "currentState (pullUpdates_settle env w) = ''idle''"
  by (simp add: pullUpdates_settle_def Let_def pullUpdates_body_completes maybePull_then_def)

lemma main_started_idle: "currentState main_started = ''idle''"
  by (simp add: main_started_def StateManager_init_def)

lemma step_Change:
  "step t (Change e p) w = (if t < clock w then None else Some (onChange e p (w\<lparr>clock := t\<rparr>)))"
  by (simp add: step_def Let_def)

lemma step_PullTick:
  "step t PullTick w = (if t < clock w then None else Some (maybePull (w\<lparr>clock := t\<rparr>)))"
  by (simp add: step_def Let_def)

subsection \<open>The values of the state\<close>

lemma step_liveStates:
  assumes "step t ev w = Some w'" and "currentState w \<in> liveStates"
  shows "currentState w' \<in> liveStates"
proof (cases ev)
  case (Change e p)
  with assms show ?thesis by (auto simp: step_Change liveStates_def split: if_splits)
next
  case (TimerFires h)
  with assms show ?thesis
    by (auto simp: step_def liveStates_def Let_def split: if_splits option.splits)
next
  case PullTick
  with assms show ?thesis
    by (auto simp: step_PullTick liveStates_def currentState_maybePull split: if_splits)
next
  case (CommitSettles env)
  with assms have "w' = batchedCommit_settle env (w\<lparr>clock := t\<rparr>)"
    by (auto simp: step_def Let_def split: if_splits)
  with currentState_batchedCommit_settle [of env "w\<lparr>clock := t\<rparr>"] assms(2)
  show ?thesis by (auto simp: liveStates_def)
next
  case (PullSettles env)
  with assms show ?thesis
    by (auto simp: step_def liveStates_def Let_def split: if_splits)
qed

lemma run_liveStates:
  "run evs w = Some w' \<Longrightarrow> currentState w \<in> liveStates \<Longrightarrow> currentState w' \<in> liveStates"
proof (induction evs arbitrary: w)
  case Nil
  then show ?case by simp
next
  case (Cons a evs)
  obtain t ev where a: "a = (t, ev)" by (cases a)
  from Cons.prems(1) a obtain w1 where s: "step t ev w = Some w1" and r: "run evs w1 = Some w'"
    by (auto split: option.splits)
  from step_liveStates [OF s Cons.prems(2)] Cons.IH [OF r] show ?case by blast
qed

lemma reachable_liveStates:
  assumes "run evs main_started = Some w"
  shows "currentState w \<in> liveStates"
proof -
  have "currentState main_started \<in> liveStates"
    by (simp add: main_started_idle liveStates_def)
  from run_liveStates [OF assms this] show ?thesis .
qed

text \<open>
  Claim C9, as the specification states it: at every instant of the daemon's lifetime
  the state is one of idle, pending, committing, pulling, blocked and error. The
  constructor of \<open>StateManager\<close> gives it a seventh value, which it keeps while the
  repository is verified and the statistics are written.
\<close>

theorem state_not_among_declared_at_construction:
  "currentState StateManager_new \<notin>
     {''idle'', ''pending'', ''committing'', ''pulling'', ''blocked'', ''error''}"
  by (simp add: StateManager_new_def)

text \<open>
  Claim C9, amended: the state is \<open>initializing\<close> from the construction of the state
  manager until \<open>init\<close>; in every world that the daemon reaches after \<open>init\<close>, by any
  sequence of change events, timer expiries, pull ticks and settling cycles, it is one of
  the six declared members.
\<close>

theorem state_declared_after_init:
  "currentState StateManager_new = ''initializing'' \<and>
   (\<forall>evs w. run evs main_started = Some w \<longrightarrow>
      currentState w \<in> {''idle'', ''pending'', ''committing'', ''pulling'', ''blocked'', ''error''})"
proof -
  have "currentState w \<in> {''idle'', ''pending'', ''committing'', ''pulling'', ''blocked'', ''error''}"
    if "run evs main_started = Some w" for evs w
    using reachable_liveStates [OF that] by (auto simp: liveStates_def)
  then show ?thesis by (simp add: StateManager_new_def)
qed

theorem state_declared_after_init_witness:
  "run [(1000, Change ''change'' ''/repo/note.md''), (61000, TimerFires 0)] main_started \<noteq> None
   \<and> currentState (the (run [(1000, Change ''change'' ''/repo/note.md''), (61000, TimerFires 0)]
         main_started)) = ''committing''
   \<and> ''committing'' \<in> {''idle'', ''pending'', ''committing'', ''pulling'', ''blocked'', ''error''}"
proof -
  let ?evs = "[(1000, Change ''change'' ''/repo/note.md''), (61000, TimerFires 0)]"
  obtain w where r: "run ?evs main_started = Some w" and c: "currentState w = ''committing''"
    by (simp add: daemon_defs)
  from state_declared_after_init r
  have "currentState w \<in> {''idle'', ''pending'', ''committing'', ''pulling'', ''blocked'', ''error''}"
    by blast
  with r c show ?thesis by simp
qed

text \<open>
  Claim C10: the state never becomes \<open>blocked\<close>. It is not the value the constructor
  assigns, and no world reached after \<open>init\<close> by change events, timer expiries, pull ticks
  and settling cycles has it.
\<close>

theorem blocked_unreachable:
  "currentState StateManager_new \<noteq> ''blocked'' \<and>
   (\<forall>evs w. run evs main_started = Some w \<longrightarrow> currentState w \<noteq> ''blocked'')"
proof -
  have "currentState w \<noteq> ''blocked''" if "run evs main_started = Some w" for evs w
    using reachable_liveStates [OF that] by (auto simp: liveStates_def)
  then show ?thesis by (simp add: StateManager_new_def)
qed

theorem blocked_unreachable_witness:
  "run [(1000, Change ''change'' ''/repo/note.md''), (60000, PullTick)] main_started \<noteq> None
   \<and> currentState (the (run [(1000, Change ''change'' ''/repo/note.md''), (60000, PullTick)]
         main_started)) \<noteq> ''blocked''"
proof -
  let ?evs = "[(1000, Change ''change'' ''/repo/note.md''), (60000, PullTick)]"
  obtain w where r: "run ?evs main_started = Some w"
    by (simp add: daemon_defs)
  from blocked_unreachable r have "currentState w \<noteq> ''blocked''"
    by blast
  with r show ?thesis by simp
qed

subsection \<open>Pull ticks\<close>

text \<open>
  Claim C6: in every state other than idle, a periodic pull tick starts no pull and
  leaves the state as it is; all it does is print why it skipped.
\<close>

theorem pull_tick_skipped_unless_idle:
  assumes "currentState w \<noteq> ''idle''"
  shows "maybePull w =
           w\<lparr>console := console w @
               [(INFO, currentState w, ''Skipping pull, current state:'' @ currentState w)]\<rparr>
         \<and> currentState (maybePull w) = currentState w
         \<and> pullsRunning (maybePull w) = pullsRunning w"
  using assms by (simp add: maybePull_def logInfo_def)

theorem pull_tick_skipped_unless_idle_witness:
  "currentState (onChange ''change'' ''/repo/note.md'' main_started) \<noteq> ''idle''
   \<and> currentState (maybePull (onChange ''change'' ''/repo/note.md'' main_started)) = ''pending''
   \<and> pullsRunning (maybePull (onChange ''change'' ''/repo/note.md'' main_started)) = 0"
proof -
  let ?w = "onChange ''change'' ''/repo/note.md'' main_started"
  have h: "currentState ?w \<noteq> ''idle''" by simp
  have p: "pullsRunning ?w = 0"
    by (simp add: daemon_defs split: option.splits prod.splits)
  from pull_tick_skipped_unless_idle [OF h] p show ?thesis by simp
qed

subsection \<open>Failed pulls and the error state\<close>

lemma maybePull_idle:
  assumes "currentState w = ''idle''"
  shows "currentState (maybePull w) = ''pulling''"
    and "pullsRunning (maybePull w) = Suc (pullsRunning w)"
    and "clock (maybePull w) = clock w"
  using assms by (simp_all add: maybePull_def pullUpdates_begin_def setState_def logInfo_def)

lemma tick_then_settle_idle:
  assumes "currentState w = ''idle''" and "clock w \<le> t" and "t \<le> t'"
  shows "map_option currentState (run [(t, PullTick), (t', PullSettles env)] w) = Some ''idle''"
proof -
  let ?w1 = "maybePull (w\<lparr>clock := t\<rparr>)"
  have idle: "currentState (w\<lparr>clock := t\<rparr>) = ''idle''" using assms(1) by simp
  have s1: "step t PullTick w = Some ?w1" using assms(2) by (simp add: step_PullTick)
  have "0 < pullsRunning ?w1" and "clock ?w1 = t"
    using maybePull_idle(2,3) [OF idle] by simp_all
  then have s2: "step t' (PullSettles env) ?w1 = Some (pullUpdates_settle env (?w1\<lparr>clock := t'\<rparr>))"
    using assms(3) by (simp add: step_def Let_def)
  show ?thesis by (simp add: s1 s2)
qed

text \<open>
  Claim C4, as the specification states it: when the coordinator is idle, a pull tick fires
  and the pull of the superproject fails, the state becomes \<open>error\<close>. With a remote that
  cannot be reached the pull cycle ends in \<open>idle\<close>.
\<close>

theorem failed_superproject_pull_ends_idle:
  "superPull remoteDown = Inl ''Could not resolve host'' \<and>
   map_option currentState
     (run [(60000, PullTick), (61000, PullSettles remoteDown)] main_started) = Some ''idle'' \<and>
   map_option currentState
     (run [(60000, PullTick), (61000, PullSettles remoteDown)] main_started) \<noteq> Some ''error''"
  by (simp add: daemon_defs pullUpdates_body_completes remoteDown_def)

text \<open>
  Claim C4, amended: when the coordinator is idle and a pull tick fires, a failure of the
  pull of the superproject is caught inside \<open>pullUpdates\<close> and printed as a warning; the
  promise of \<open>pullUpdates\<close> resolves whatever the results of the git commands are, and
  when it settles the state is \<open>idle\<close>, not \<open>error\<close>. A change event moves the state
  from \<open>error\<close> to \<open>pending\<close>.
\<close>

theorem failed_pull_is_warned_and_ends_idle:
  "snd (pullUpdates_body env) = Completed
   \<and> (\<forall>e. superPull env = Inl e \<longrightarrow>
         Log WARN (''Failed to pull superproject: '' @ e) \<in> set (fst (pullUpdates_body env)))
   \<and> (currentState w = ''idle'' \<and> clock w \<le> t \<and> t \<le> t' \<longrightarrow>
         map_option currentState (run [(t, PullTick), (t', PullSettles env)] w) = Some ''idle'')
   \<and> (currentState w' = ''error'' \<longrightarrow> currentState (onChange ev filePath w') = ''pending'')"
proof -
  have warned: "Log WARN (''Failed to pull superproject: '' @ e) \<in> set (fst (pullUpdates_body env))"
    if "superPull env = Inl e" for e
    using that by (simp add: pullUpdates_body_def pullSuperproject_def)
  from warned tick_then_settle_idle [of w t t' env] show ?thesis
    by (simp add: pullUpdates_body_completes)
qed

theorem failed_pull_is_warned_and_ends_idle_witness:
  "superPull remoteDown = Inl ''Could not resolve host''
   \<and> Log WARN ''Failed to pull superproject: Could not resolve host''
       \<in> set (fst (pullUpdates_body remoteDown))
   \<and> currentState main_started = ''idle'' \<and> clock main_started \<le> 60000
   \<and> map_option currentState
       (run [(60000, PullTick), (61000, PullSettles remoteDown)] main_started) = Some ''idle''
   \<and> currentState errorWorld = ''error''
   \<and> currentState (onChange ''change'' ''/repo/note.md'' errorWorld) = ''pending''"
proof -
  have h1: "superPull remoteDown = Inl ''Could not resolve host''"
    by (simp add: remoteDown_def)
  have h2: "currentState main_started = ''idle'' \<and> clock main_started \<le> 60000 \<and> (60000::nat) \<le> 61000"
    by (simp add: daemon_defs)
  have h3: "currentState errorWorld = ''error''"
    by (simp add: errorWorld_def maybePull_catch_def)
  note th = failed_pull_is_warned_and_ends_idle
    [of remoteDown main_started 60000 61000 errorWorld "''change''" "''/repo/note.md''"]
  from th have "\<forall>e. superPull remoteDown = Inl e \<longrightarrow>
      Log WARN (''Failed to pull superproject: '' @ e) \<in> set (fst (pullUpdates_body remoteDown))"
    by (elim conjE)
  from this [THEN spec, THEN mp, OF h1]
  have c1: "Log WARN ''Failed to pull superproject: Could not resolve host''
      \<in> set (fst (pullUpdates_body remoteDown))"
    by simp
  from th have "currentState main_started = ''idle'' \<and> clock main_started \<le> 60000 \<and>
      (60000::nat) \<le> 61000 \<longrightarrow>
      map_option currentState
        (run [(60000, PullTick), (61000, PullSettles remoteDown)] main_started) = Some ''idle''"
    by (elim conjE)
  from this [THEN mp, OF h2]
  have c2: "map_option currentState
      (run [(60000, PullTick), (61000, PullSettles remoteDown)] main_started) = Some ''idle''" .
  from th have "currentState errorWorld = ''error'' \<longrightarrow>
      currentState (onChange ''change'' ''/repo/note.md'' errorWorld) = ''pending''"
    by (elim conjE)
  from this [THEN mp, OF h3]
  have c3: "currentState (onChange ''change'' ''/repo/note.md'' errorWorld) = ''pending''" .
  from h1 h2 h3 c1 c2 c3 show ?thesis by simp
qed






subsection \<open>Runs in which the two cycles meet\<close>

lemma cleanTree_completes: "snd (batchedCommit_body cleanTree) = Completed"
  by (simp add: batchedCommit_body_def cleanTree_def superprojectCommit_def Let_def)

lemma superproject_commit_rejected_returns:
  "snd (batchedCommit_body (cleanTree\<lparr>mainCommit := Inl ''Unable to create index.lock''\<rparr>))
     = ReturnedEarly"
  by (simp add: batchedCommit_body_def cleanTree_def superprojectCommit_def Let_def)

text \<open>
  Claim C1: the daemon never has a pull and a commit in progress on the working tree at
  the same time. The run below breaks it. A change event arrives while a pull is running;
  when the pull settles the state goes to \<open>idle\<close> although the timeout of the change is
  armed; the next pull tick starts a pull, and half a second later the timeout fires and
  \<open>batchedCommit\<close> starts while that pull is still running.
\<close>

theorem commit_starts_during_pull:
  "map_option (\<lambda>w. (currentState w, commitsRunning w, pullsRunning w))
     (run [(60000, PullTick), (60500, Change ''change'' ''/repo/note.md''),
           (61000, PullSettles remoteUp), (120000, PullTick), (120500, TimerFires 0)]
        main_started)
   = Some (''committing'', 1, 1)"
  by (simp add: daemon_defs pullUpdates_body_completes)

text \<open>
  Claim C3: every way a commit cycle ends takes the state out of \<open>committing\<close>, to
  \<open>pending\<close> when change events arrived during the cycle and to \<open>idle\<close> otherwise. Two
  runs break it. In the first the commit of the superproject is rejected:
  \<open>batchedCommit\<close> returns before its last statements and the state stays
  \<open>committing\<close> with no cycle running. In the second a change event arrives during the
  cycle: the cycle ends in \<open>idle\<close>, \<open>batchTimer\<close> is cleared and the timeout of that
  event stays armed.
\<close>

theorem commit_cycle_stays_committing_or_ends_idle:
  "map_option (\<lambda>w. (currentState w, commitsRunning w))
     (run [(1000, Change ''change'' ''/repo/note.md''), (61000, TimerFires 0),
           (62000, CommitSettles (cleanTree\<lparr>mainCommit := Inl ''Unable to create index.lock''\<rparr>))]
        main_started)
   = Some (''committing'', 0)
   \<and>
   map_option (\<lambda>w. (currentState w, commitsRunning w, batchTimer w, timeouts w))
     (run [(1000, Change ''change'' ''/repo/note.md''), (61000, TimerFires 0),
           (61500, Change ''add'' ''/repo/todo.md''), (62000, CommitSettles cleanTree)]
        main_started)
   = Some (''idle'', 0, None, [(1, 121500)])"
  by (simp add: daemon_defs cleanTree_completes superproject_commit_rejected_returns)

text \<open>
  Claim C5: a pull cycle started from idle ends in \<open>idle\<close>, unless a change event
  arrived during the pull, in which case it ends in \<open>pending\<close>. The run below breaks it:
  \<open>processDone\<close> at the end of \<open>pullUpdates\<close> sets \<open>pending\<close>, and the handler that
  \<open>maybePull\<close> attached sets \<open>idle\<close> right after it, with the timeout of the change
  event still armed.
\<close>

theorem pull_cycle_ends_idle_with_timer_armed:
  "map_option (\<lambda>w. (currentState w, pullsRunning w, batchTimer w, timeouts w))
     (run [(60000, PullTick), (60500, Change ''change'' ''/repo/note.md''),
           (61000, PullSettles remoteUp)]
        main_started)
   = Some (''idle'', 0, Some 0, [(0, 120500)])"
  by (simp add: daemon_defs pullUpdates_body_completes)

text \<open>
  Claim C2: every sequence of change events that arrive within one batch interval
  triggers exactly one commit cycle, each event cancelling the timeout of the one before.
  The run below breaks it. Four change events arrive within 1.5 seconds, two before and
  two after a commit cycle ends. The end of the cycle clears \<open>batchTimer\<close> while the
  timeout of the second event is armed, so the third event cancels nothing: two timeouts
  stay armed, both fire, and the second commit cycle starts while the first is running.
\<close>

theorem burst_across_cycle_end_starts_two_cycles:
  "map_option (\<lambda>w. (currentState w, batchTimer w, timeouts w))
     (run [(1000, Change ''change'' ''/repo/note.md''), (61000, TimerFires 0),
           (61500, Change ''change'' ''/repo/a.md''), (61900, Change ''change'' ''/repo/a.md''),
           (62000, CommitSettles cleanTree),
           (62100, Change ''change'' ''/repo/a.md''), (63000, Change ''add'' ''/repo/b.md'')]
        main_started)
   = Some (''pending'', Some 4, [(2, 121900), (4, 123000)])
   \<and>
   map_option (\<lambda>w. (currentState w, commitsRunning w, timeouts w))
     (run [(1000, Change ''change'' ''/repo/note.md''), (61000, TimerFires 0),
           (61500, Change ''change'' ''/repo/a.md''), (61900, Change ''change'' ''/repo/a.md''),
           (62000, CommitSettles cleanTree),
           (62100, Change ''change'' ''/repo/a.md''), (63000, Change ''add'' ''/repo/b.md''),
           (121900, TimerFires 2), (123000, TimerFires 4)]
        main_started)
   = Some (''committing'', 2, [])"
  by (simp add: daemon_defs cleanTree_completes)

subsection \<open>Failures inside the commit cycle\<close>

text \<open>The rejected commit of a submodule is caught: the pass ends with a warning and the
  loop goes on.\<close>

lemma submoduleIteration_commit_fails:
  assumes "pathExists g" and "statusFiles g = Inr n" and "0 < n" and "branchCurrent g = Inr b"
    and "addResult g = Inr u" and "commitResult g = Inl e"
  shows "submoduleIteration d f g =
           ([Git (Sub f) Status, Git (Sub f) BranchLocal, Git (Sub f) (Add ''.''),
             Git (Sub f) (Commit (subCommitMsg d n)),
             Log WARN (''Failed to commit submodule '' @ f @ '': '' @ e)], None)"
  using assms by (simp add: submoduleIteration_def Let_def)

text \<open>
  Claim C8: when the commit of a submodule fails, every later submodule and the
  superproject are still processed in the same cycle, and no failure crosses from one
  tree to another. The cycle below breaks it. The rejected commit of \<open>photos\<close> is
  caught and printed, and the loop goes on to \<open>broken\<close>; there \<open>status\<close>, which is
  awaited outside any \<open>try\<close>, rejects, and the exception ends \<open>batchedCommit\<close>: no
  command is issued for \<open>drafts\<close> or for the superproject, and with the last statements
  skipped the state stays \<open>committing\<close>.
\<close>

theorem later_status_failure_ends_cycle:
  "batchedCommit_body laterStatusRejects =
     ([Git Superproject (Raw [''submodule'', ''status'', ''--recursive'']),
       Log INFO ''Submodule folders: photos, broken, drafts'',
       Git (Sub ''photos'') Status, Git (Sub ''photos'') BranchLocal,
       Git (Sub ''photos'') (Add ''.''),
       Git (Sub ''photos'') (Commit (subCommitMsg ''2025-01-01 00:00:00'' 2)),
       Log WARN ''Failed to commit submodule photos: pre-commit hook failed'',
       Git (Sub ''broken'') Status],
      Threw ''fatal: not a git repository'')
   \<and>
   map_option (\<lambda>w. (currentState w, commitsRunning w))
     (run [(1000, Change ''change'' ''/repo/photos/a.jpg''), (61000, TimerFires 0),
           (62000, CommitSettles laterStatusRejects)]
        main_started)
   = Some (''committing'', 0)"
proof -
  have body: "batchedCommit_body laterStatusRejects =
     ([Git Superproject (Raw [''submodule'', ''status'', ''--recursive'']),
       Log INFO ''Submodule folders: photos, broken, drafts'',
       Git (Sub ''photos'') Status, Git (Sub ''photos'') BranchLocal,
       Git (Sub ''photos'') (Add ''.''),
       Git (Sub ''photos'') (Commit (subCommitMsg ''2025-01-01 00:00:00'' 2)),
       Log WARN ''Failed to commit submodule photos: pre-commit hook failed'',
       Git (Sub ''broken'') Status],
      Threw ''fatal: not a git repository'')"
    by (simp add: batchedCommit_body_def laterStatusRejects_def cleanTree_def changedSub_def
        submoduleIteration_def Let_def)
  then have "snd (batchedCommit_body laterStatusRejects) = Threw ''fatal: not a git repository''"
    by simp
  then have "map_option (\<lambda>w. (currentState w, commitsRunning w))
     (run [(1000, Change ''change'' ''/repo/photos/a.jpg''), (61000, TimerFires 0),
           (62000, CommitSettles laterStatusRejects)]
        main_started)
   = Some (''committing'', 0)"
    by (simp add: daemon_defs)
  with body show ?thesis by blast
qed

end
